theory Spec2Isabelle
  imports Main "HOL-Library.Word"
begin

section \<open>The TranscriptManager server: the generate-notes-from-source handler\<close>

text \<open>
  This theory embeds the handler of the tool \<^verbatim>\<open>generate-notes-from-source\<close>
  (\<^verbatim>\<open>src/src/index.ts\<close>, lines 86 to 201) and proves what it does and does not do.
  The handler is a straight sequence: two table lookups, one of three acquisition branches,
  and the construction of the answer. Everything outside the source file (the file system,
  child processes, \<^verbatim>\<open>path\<close>, \<^verbatim>\<open>JSON\<close>) is a parameter of the model, so every theorem
  holds for every behaviour of that environment. The handler is run on parameters that
  zod has already validated, so a request is a typed record.
\<close>

subsection \<open>Strings and values\<close>

text \<open>
  A JavaScript string is a sequence of UTF-16 code units; \<^verbatim>\<open>.length\<close> counts them and a
  regular expression without the \<^verbatim>\<open>u\<close> flag tests them one at a time.
\<close>

type_synonym jschar = "16 word"
type_synonym jsstring = "jschar list"

definition js :: "string \<Rightarrow> jsstring" where
  "js s = map of_char s"

text \<open>
  The values \<^verbatim>\<open>JSON.parse\<close> can return. The program never inspects a number, so the
  type of numbers is left open.
\<close>

typedecl float64

datatype json =
    JNull
  | JBool bool
  | JNum float64
  | JStr jsstring
  | JArr "json list"
  | JObj "(jsstring \<times> json) list"

text \<open>The variable \<^verbatim>\<open>transcriptContent\<close> holds a parsed value or \<^verbatim>\<open>undefined\<close>.\<close>

datatype jsval = Undefined | Val json

text \<open>
  The result of reading \<^verbatim>\<open>table[key]\<close> on an object literal: an own property (a string
  here), a property inherited from \<^verbatim>\<open>Object.prototype\<close> (a function, or the prototype
  itself for \<^verbatim>\<open>__proto__\<close>), or \<^verbatim>\<open>undefined\<close>.
\<close>

datatype member = Own jsstring | Inherited jsstring | Missing

definition Object_prototype :: "jsstring list" where
  "Object_prototype = map js
     [''constructor'', ''hasOwnProperty'', ''isPrototypeOf'', ''propertyIsEnumerable'',
      ''toLocaleString'', ''toString'', ''valueOf'', ''__proto__'',
      ''__defineGetter__'', ''__defineSetter__'', ''__lookupGetter__'', ''__lookupSetter__'']"

definition lookup :: "(jsstring \<times> jsstring) list \<Rightarrow> jsstring \<Rightarrow> member" where
  "lookup tbl k =
     (case map_of tbl k of
        Some v \<Rightarrow> Own v
      | None \<Rightarrow> if k \<in> set Object_prototype then Inherited k else Missing)"

fun truthy :: "member \<Rightarrow> bool" where
  "truthy (Own s) = (s \<noteq> [])"
| "truthy (Inherited k) = True"
| "truthy Missing = False"

text \<open>\<^verbatim>\<open>a || b\<close> with a table entry on the left and a string on the right.\<close>

definition or_default :: "member \<Rightarrow> jsstring \<Rightarrow> member" where
  "or_default a b = (if truthy a then a else Own b)"

text \<open>\<^verbatim>\<open>a || b\<close> with an optional string parameter on the left: the empty string is falsy.\<close>

fun or_string :: "jsstring option \<Rightarrow> jsstring \<Rightarrow> jsstring" where
  "or_string None b = b"
| "or_string (Some a) b = (if a = [] then b else a)"

subsection \<open>The request, the answer, the effects\<close>

datatype source_type = LocalFile | Youtube | Api

datatype api_method = GET | POST

record params =
  courseName :: jsstring
  lectureNumber :: jsstring
  lectureTopic :: jsstring
  sourceType :: source_type
  sourceLocation :: jsstring
  apiMethod :: "api_method option"
  apiHeaders :: "(jsstring \<times> jsstring) list option"
  apiBody :: "jsstring option"
  outputDirectory :: "jsstring option"
  outputFilename :: "jsstring option"
  saveTranscript :: bool
  transcriptFilename :: "jsstring option"
  specialFormatting :: "jsstring option"
  contentToEmphasize :: "jsstring option"
  otherInstructions :: "jsstring option"

datatype item = Text jsstring

text \<open>The success envelope has no \<^verbatim>\<open>isError\<close> field; it is read as false.\<close>

record envelope =
  isError :: bool
  content :: "item list"

datatype event =
    Warn jsstring
  | ReadFile jsstring
  | Exec jsstring
  | WriteFile jsstring jsval

text \<open>
  What can be thrown inside the handler. Every one is an \<^verbatim>\<open>Error\<close> instance, so the
  outer \<^verbatim>\<open>catch\<close> reports \<^verbatim>\<open>error.message\<close>.
\<close>

datatype exn =
    ExecError jsstring
  | SyntaxError jsstring
  | WriteError jsstring
  | PathTypeError member
  | NullishTypeError jsval
  | PrimitiveTypeError jsstring

text \<open>
  The environment: \<^verbatim>\<open>path.isAbsolute\<close>, \<^verbatim>\<open>path.join\<close> on two strings,
  \<^verbatim>\<open>fs.readFile\<close> (\<open>None\<close>: the promise rejects), the two halves of
  \<^verbatim>\<open>fs.writeFile\<close> (what it makes of a data argument that is not a string, \<open>Inl m\<close>
  being a TypeError; and the writing of a text to a path, \<open>Some m\<close> being a rejection
  with message \<open>m\<close>), \<^verbatim>\<open>execSync(cmd).toString()\<close> (\<open>Inl m\<close>: it throws with
  message \<open>m\<close>, as on a non-zero exit), \<^verbatim>\<open>JSON.parse\<close> (\<open>Inl m\<close>: a SyntaxError),
  \<^verbatim>\<open>JSON.stringify\<close>, the conversion of a value to a string in a template (for a
  parsed value \<open>Inl m\<close> is the TypeError of an object that cannot be converted), and
  the messages of the engine's and the library's other TypeErrors.
\<close>

record node =
  isAbsolute :: "jsstring \<Rightarrow> bool"
  join :: "jsstring \<Rightarrow> jsstring \<Rightarrow> jsstring"
  readFile :: "jsstring \<Rightarrow> jsstring option"
  writeData :: "jsval \<Rightarrow> jsstring + jsstring"
  writeFile :: "jsstring \<Rightarrow> jsstring \<Rightarrow> jsstring option"
  execSync :: "jsstring \<Rightarrow> jsstring + jsstring"
  JSON_parse :: "jsstring \<Rightarrow> jsstring + json"
  JSON_stringify :: "json \<Rightarrow> jsstring"
  String_json :: "json \<Rightarrow> jsstring + jsstring"
  String_inherited :: "jsstring \<Rightarrow> jsstring"
  pathTypeMessage :: "member \<Rightarrow> jsstring"
  nullishMessage :: "jsval \<Rightarrow> jsstring"

fun message :: "node \<Rightarrow> exn \<Rightarrow> jsstring" where
  "message rt (ExecError m) = m"
| "message rt (SyntaxError m) = m"
| "message rt (WriteError m) = m"
| "message rt (PathTypeError a) = pathTypeMessage rt a"
| "message rt (NullishTypeError v) = nullishMessage rt v"
| "message rt (PrimitiveTypeError m) = m"

text \<open>\<^verbatim>\<open>path.join\<close> validates its arguments and throws a TypeError on a non-string.\<close>

fun path_join :: "node \<Rightarrow> member \<Rightarrow> jsstring \<Rightarrow> exn + jsstring" where
  "path_join rt (Own d) f = Inr (join rt d f)"
| "path_join rt (Inherited k) f = Inl (PathTypeError (Inherited k))"
| "path_join rt Missing f = Inl (PathTypeError Missing)"

text \<open>A value interpolated into a template literal.\<close>

fun show_member :: "node \<Rightarrow> member \<Rightarrow> jsstring" where
  "show_member rt (Own s) = s"
| "show_member rt (Inherited k) = String_inherited rt k"
| "show_member rt Missing = js ''undefined''"

definition digit :: "nat \<Rightarrow> jschar" where
  "digit d = of_nat (48 + d)"

function show_nat :: "nat \<Rightarrow> jsstring" where
  "show_nat n = (if n < 10 then [digit n] else show_nat (n div 10) @ [digit (n mod 10)])"
  by pat_completeness auto
termination
  by (relation "measure id") auto

text \<open>
  The text of \<^verbatim>\<open>${transcriptContent.length}\<close>: reading a property of \<^verbatim>\<open>undefined\<close> or
  \<^verbatim>\<open>null\<close> throws; a string or an array has its length; a number or a boolean has none;
  an object has the one it was given, if any.
\<close>

fun length_text :: "node \<Rightarrow> jsval \<Rightarrow> exn + jsstring" where
  "length_text rt Undefined = Inl (NullishTypeError Undefined)"
| "length_text rt (Val JNull) = Inl (NullishTypeError (Val JNull))"
| "length_text rt (Val (JStr s)) = Inr (show_nat (length s))"
| "length_text rt (Val (JArr xs)) = Inr (show_nat (length xs))"
| "length_text rt (Val (JObj kvs)) =
     (case map_of kvs (js ''length'') of
        Some v \<Rightarrow>
          (case String_json rt v of
             Inl m \<Rightarrow> Inl (PrimitiveTypeError m)
           | Inr s \<Rightarrow> Inr s)
      | None \<Rightarrow> Inr (js ''undefined''))"
| "length_text rt (Val (JBool b)) = Inr (js ''undefined'')"
| "length_text rt (Val (JNum x)) = Inr (js ''undefined'')"

text \<open>\<^verbatim>\<open>apiResponse.data\<close>: only an object can own the property, and \<^verbatim>\<open>null\<close> throws.\<close>

fun get_data :: "json \<Rightarrow> exn + jsval" where
  "get_data JNull = Inl (NullishTypeError (Val JNull))"
| "get_data (JObj kvs) =
     (case map_of kvs (js ''data'') of Some v \<Rightarrow> Inr (Val v) | None \<Rightarrow> Inr Undefined)"
| "get_data (JBool b) = Inr Undefined"
| "get_data (JNum x) = Inr Undefined"
| "get_data (JStr s) = Inr Undefined"
| "get_data (JArr xs) = Inr Undefined"

subsection \<open>Configuration (lines 14 to 30)\<close>

definition COURSE_NOTES_PATHS :: "(jsstring \<times> jsstring) list" where
  "COURSE_NOTES_PATHS =
     [(js ''Approximations Algorithms'', js ''/Users/lmarte/Documents/Obsidian Vault/Approx-Algo-LP''),
      (js ''Math'', js ''/Users/lmarte/Documents/Obsidian Vault/Math'')]"

definition COURSE_TRANSCRIPT_PATHS :: "(jsstring \<times> jsstring) list" where
  "COURSE_TRANSCRIPT_PATHS =
     [(js ''Approximations Algorithms'',
       js ''/Users/lmarte/Documents/Projects/CU-Boulder/Data-Structures-Algo/Approx-Algo-LP''),
      (js ''Math'', js ''/Users/lmarte/Documents/Obsidian Vault/Math/transcripts'')]"

definition DEFAULT_NOTES_PATH :: jsstring where
  "DEFAULT_NOTES_PATH = js ''/Users/lmarte/Documents/Obsidian Vault''"

definition DEFAULT_TRANSCRIPT_PATH :: jsstring where
  "DEFAULT_TRANSCRIPT_PATH = js ''/Users/lmarte/Documents/Transcripts''"

subsection \<open>Step 1: the course paths (lines 89 to 94)\<close>

definition notesPath :: "params \<Rightarrow> member" where
  "notesPath p = or_default (lookup COURSE_NOTES_PATHS (courseName p)) DEFAULT_NOTES_PATH"

definition transcriptPath :: "params \<Rightarrow> member" where
  "transcriptPath p =
     or_default (lookup COURSE_TRANSCRIPT_PATHS (courseName p)) DEFAULT_TRANSCRIPT_PATH"

definition warning :: "params \<Rightarrow> event list" where
  "warning p =
     (if \<not> truthy (lookup COURSE_NOTES_PATHS (courseName p))
      then [Warn (js ''Warning: Unknown course \"'' @ courseName p
                  @ js ''\". Using default paths.'')]
      else [])"

subsection \<open>The derived file names (lines 127, 145 and 156)\<close>

text \<open>The class \<^verbatim>\<open>\s\<close> of ECMAScript: white space and line terminators.\<close>

definition is_space :: "jschar \<Rightarrow> bool" where
  "is_space c =
     (c \<in> {0x9, 0xA, 0xB, 0xC, 0xD, 0x20, 0xA0, 0x1680, 0x2028, 0x2029, 0x202F, 0x205F,
            0x3000, 0xFEFF}
      \<or> (0x2000 \<le> c \<and> c \<le> 0x200A))"

definition hyphen :: jschar where
  "hyphen = of_char CHR ''-''"

text \<open>
  \<^verbatim>\<open>s.replace(/\s+/g, '-')\<close>: scanning from the left, a code unit outside the class is
  copied; at one inside it the greedy match takes the whole run, which becomes one hyphen.
\<close>

function replace_ws :: "jsstring \<Rightarrow> jsstring" where
  "replace_ws [] = []"
| "replace_ws (c # cs) =
     (if is_space c then hyphen # replace_ws (dropWhile is_space cs)
      else c # replace_ws cs)"
  by pat_completeness auto
termination
  by (relation "measure length") (auto simp: le_imp_less_Suc length_dropWhile_le)

definition lectureStem :: "params \<Rightarrow> jsstring" where
  "lectureStem p = replace_ws (courseName p) @ js ''-Lecture-'' @ lectureNumber p"

definition ytTranscriptFilename :: "params \<Rightarrow> jsstring" where
  "ytTranscriptFilename p = or_string (transcriptFilename p) (lectureStem p @ js ''-YT.txt'')"

definition apiTranscriptFilename :: "params \<Rightarrow> jsstring" where
  "apiTranscriptFilename p = or_string (transcriptFilename p) (lectureStem p @ js ''-API.txt'')"

definition outputFilename_final :: "params \<Rightarrow> jsstring" where
  "outputFilename_final p = or_string (outputFilename p) (lectureStem p)"

subsection \<open>Step 2: acquisition (lines 96 to 150)\<close>

text \<open>
  A step of the handler goes on with a value, returns an envelope at once, or throws into
  the outer \<^verbatim>\<open>catch\<close>.
\<close>

datatype 'a step = Continue 'a | Return envelope | Throw exn

text \<open>Lines 102 to 104: the file a local-file request reads.\<close>

definition local_target :: "node \<Rightarrow> params \<Rightarrow> exn + jsstring" where
  "local_target rt p =
     (if isAbsolute rt (sourceLocation p) then Inr (sourceLocation p)
      else path_join rt (transcriptPath p) (sourceLocation p))"

definition not_readable :: "jsstring \<Rightarrow> envelope" where
  "not_readable path =
     \<lparr>isError = True,
      content = [Text (js ''Error: Could not read file at '' @ path
                       @ js ''. Make sure the file exists and is accessible.'')]\<rparr>"

definition acquire_local :: "node \<Rightarrow> params \<Rightarrow> event list \<times> jsval step" where
  "acquire_local rt p =
     (case local_target rt p of
        Inl e \<Rightarrow> ([], Throw e)
      | Inr path \<Rightarrow>
          (case readFile rt path of
             None \<Rightarrow> ([ReadFile path], Return (not_readable path))
           | Some s \<Rightarrow> ([ReadFile path], Continue (Val (JStr s)))))"

text \<open>
  \<^verbatim>\<open>fs.writeFile(path, data)\<close>. A string is written as it is: the file then holds that
  string (in UTF-8). What any other value is turned into, if anything, is the
  environment's: a TypeError, or the chunks of an iterable one after the other. The write
  itself may then fail. \<open>Inr t\<close>: the promise resolves and the file holds the text \<open>t\<close>.
\<close>

fun data_text :: "node \<Rightarrow> jsval \<Rightarrow> jsstring + jsstring" where
  "data_text rt (Val (JStr s)) = Inr s"
| "data_text rt Undefined = writeData rt Undefined"
| "data_text rt (Val JNull) = writeData rt (Val JNull)"
| "data_text rt (Val (JBool b)) = writeData rt (Val (JBool b))"
| "data_text rt (Val (JNum x)) = writeData rt (Val (JNum x))"
| "data_text rt (Val (JArr xs)) = writeData rt (Val (JArr xs))"
| "data_text rt (Val (JObj kvs)) = writeData rt (Val (JObj kvs))"

definition fs_writeFile :: "node \<Rightarrow> jsstring \<Rightarrow> jsval \<Rightarrow> jsstring + jsstring" where
  "fs_writeFile rt path c =
     (case data_text rt c of
        Inl m \<Rightarrow> Inl m
      | Inr t \<Rightarrow> (case writeFile rt path t of Some m \<Rightarrow> Inl m | None \<Rightarrow> Inr t))"

text \<open>
  Lines 126 to 131 and 144 to 149 are the same code up to the derived name: if the flag is
  set, join the transcript directory and the name, and write the content there.
\<close>

definition save_copy :: "node \<Rightarrow> params \<Rightarrow> jsstring \<Rightarrow> jsval \<Rightarrow> event list \<times> jsval step" where
  "save_copy rt p name c =
     (if saveTranscript p then
        (case path_join rt (transcriptPath p) name of
           Inl e \<Rightarrow> ([], Throw e)
         | Inr path \<Rightarrow>
             (case fs_writeFile rt path c of
                Inl m \<Rightarrow> ([WriteFile path c], Throw (WriteError m))
              | Inr t \<Rightarrow> ([WriteFile path c], Continue c)))
      else ([], Continue c))"

definition ytCommand :: "params \<Rightarrow> jsstring" where
  "ytCommand p = js ''npx -y @anaisbetts/mcp-youtube '' @ sourceLocation p"

definition fetch_youtube :: "node \<Rightarrow> params \<Rightarrow> event list \<times> jsval step" where
  "fetch_youtube rt p =
     (case execSync rt (ytCommand p) of
        Inl m \<Rightarrow> ([Exec (ytCommand p)], Throw (ExecError m))
      | Inr out \<Rightarrow> ([Exec (ytCommand p)], Continue (Val (JStr out))))"

fun method_text :: "api_method \<Rightarrow> jsstring" where
  "method_text GET = js ''GET''"
| "method_text POST = js ''POST''"

definition curlCommand :: "node \<Rightarrow> params \<Rightarrow> jsstring" where
  "curlCommand rt p =
     (let method = (case apiMethod p of Some m \<Rightarrow> method_text m | None \<Rightarrow> js ''GET'');
          headers = (case apiHeaders p of Some hs \<Rightarrow> hs | None \<Rightarrow> []);
          body = or_string (apiBody p) []
      in js ''npx @modelcontextprotocol/server-curl '' @ sourceLocation p @ js '' '' @ method
         @ js '' '' @ JSON_stringify rt (JObj (map (\<lambda>(k, v). (k, JStr v)) headers))
         @ js '' '' @ (if body \<noteq> [] then JSON_stringify rt (JStr body) else []))"

definition fetch_api :: "node \<Rightarrow> params \<Rightarrow> event list \<times> jsval step" where
  "fetch_api rt p =
     (case execSync rt (curlCommand rt p) of
        Inl m \<Rightarrow> ([Exec (curlCommand rt p)], Throw (ExecError m))
      | Inr out \<Rightarrow>
          (case JSON_parse rt out of
             Inl m \<Rightarrow> ([Exec (curlCommand rt p)], Throw (SyntaxError m))
           | Inr j \<Rightarrow>
               (case get_data j of
                  Inl e \<Rightarrow> ([Exec (curlCommand rt p)], Throw e)
                | Inr c \<Rightarrow> ([Exec (curlCommand rt p)], Continue c))))"

text \<open>Sequencing: the second step runs only if the first goes on.\<close>

fun and_then ::
  "event list \<times> 'a step \<Rightarrow> ('a \<Rightarrow> event list \<times> 'b step) \<Rightarrow> event list \<times> 'b step" where
  "and_then (evs, Continue c) f = (evs @ fst (f c), snd (f c))"
| "and_then (evs, Return env) f = (evs, Return env)"
| "and_then (evs, Throw e) f = (evs, Throw e)"

text \<open>The value assigned to \<^verbatim>\<open>transcriptContent\<close>, before any copy is saved.\<close>

definition fetch :: "node \<Rightarrow> params \<Rightarrow> event list \<times> jsval step" where
  "fetch rt p =
     (case sourceType p of
        LocalFile \<Rightarrow> acquire_local rt p
      | Youtube \<Rightarrow> fetch_youtube rt p
      | Api \<Rightarrow> fetch_api rt p)"

definition acquire :: "node \<Rightarrow> params \<Rightarrow> event list \<times> jsval step" where
  "acquire rt p =
     (case sourceType p of
        LocalFile \<Rightarrow> acquire_local rt p
      | Youtube \<Rightarrow> and_then (fetch_youtube rt p) (save_copy rt p (ytTranscriptFilename p))
      | Api \<Rightarrow> and_then (fetch_api rt p) (save_copy rt p (apiTranscriptFilename p)))"

subsection \<open>Steps 3 to 5 and the answer (lines 152 to 188)\<close>

definition outputDirectory_final :: "params \<Rightarrow> member" where
  "outputDirectory_final p =
     (case outputDirectory p of
        None \<Rightarrow> notesPath p
      | Some d \<Rightarrow> if d = [] then notesPath p else Own d)"

definition noteCommand :: jsstring where
  "noteCommand = js ''node /Users/lmarte/Documents/Projects/mcp-servers/note-taker/build/index.js''"

text \<open>The object \<^verbatim>\<open>promptArgs\<close>; \<open>None\<close> is a field holding \<^verbatim>\<open>undefined\<close>.\<close>

definition promptArgs :: "params \<Rightarrow> (string \<times> member option) list" where
  "promptArgs p =
     [(''courseName'', Some (Own (courseName p))),
      (''lectureNumber'', Some (Own (lectureNumber p))),
      (''lectureTopic'', Some (Own (lectureTopic p))),
      (''transcriptFilePath'', Some (transcriptPath p)),
      (''outputDirectory'', map_option Own (outputDirectory p)),
      (''outputFilename'', Some (Own (outputFilename_final p))),
      (''specialFormatting'', Some (Own (or_string (specialFormatting p) []))),
      (''contentToEmphasize'', Some (Own (or_string (contentToEmphasize p) []))),
      (''otherInstructions'', Some (Own (or_string (otherInstructions p) [])))]"

fun sourceType_text :: "source_type \<Rightarrow> jsstring" where
  "sourceType_text LocalFile = js ''local-file''"
| "sourceType_text Youtube = js ''youtube''"
| "sourceType_text Api = js ''api''"

definition success_text :: "node \<Rightarrow> params \<Rightarrow> jsstring \<Rightarrow> jsstring \<Rightarrow> jsstring" where
  "success_text rt p fullOutputPath len =
     js ''Notes successfully generated from '' @ sourceType_text (sourceType p)
       @ js '' source!\<newline>\<newline>''
     @ js ''Course: '' @ courseName p @ js ''\<newline>''
     @ js ''Source: '' @ show_member rt (or_default (transcriptPath p) (sourceLocation p))
       @ js ''\<newline>''
     @ js ''Notes saved to: '' @ fullOutputPath @ js ''\<newline>\<newline>''
     @ js ''Transcript length: '' @ len @ js '' characters''"

text \<open>
  The command and the argument object are built and then not used: the source has no call
  between line 175 and the \<^verbatim>\<open>return\<close> of line 177.
\<close>

definition respond :: "node \<Rightarrow> params \<Rightarrow> jsval \<Rightarrow> exn + envelope" where
  "respond rt p transcriptContent =
     (let command = noteCommand;
          args = promptArgs p
      in case path_join rt (outputDirectory_final p) (outputFilename_final p @ js ''.md'') of
           Inl e \<Rightarrow> Inl e
         | Inr fullOutputPath \<Rightarrow>
             (case length_text rt transcriptContent of
                Inl e \<Rightarrow> Inl e
              | Inr len \<Rightarrow>
                  Inr \<lparr>isError = False,
                       content = [Text (success_text rt p fullOutputPath len)]\<rparr>))"

text \<open>Lines 189 to 200: the outer \<^verbatim>\<open>catch\<close>.\<close>

definition caught :: "node \<Rightarrow> exn \<Rightarrow> envelope" where
  "caught rt e =
     \<lparr>isError = True, content = [Text (js ''Error generating notes: '' @ message rt e)]\<rparr>"

definition handler :: "node \<Rightarrow> params \<Rightarrow> event list \<times> envelope" where
  "handler rt p =
     (case acquire rt p of
        (evs, Return env) \<Rightarrow> (warning p @ evs, env)
      | (evs, Throw e) \<Rightarrow> (warning p @ evs, caught rt e)
      | (evs, Continue c) \<Rightarrow>
          (case respond rt p c of
             Inl e \<Rightarrow> (warning p @ evs, caught rt e)
           | Inr env \<Rightarrow> (warning p @ evs, env)))"

subsection \<open>Observations on the effects\<close>

fun writes :: "event list \<Rightarrow> (jsstring \<times> jsval) list" where
  "writes [] = []"
| "writes (WriteFile path c # es) = (path, c) # writes es"
| "writes (Warn m # es) = writes es"
| "writes (ReadFile path # es) = writes es"
| "writes (Exec cmd # es) = writes es"

fun commands :: "event list \<Rightarrow> jsstring list" where
  "commands [] = []"
| "commands (Exec cmd # es) = cmd # commands es"
| "commands (Warn m # es) = commands es"
| "commands (ReadFile path # es) = commands es"
| "commands (WriteFile path c # es) = commands es"


subsection \<open>The derived name, in the words of the specification\<close>

text \<open>
  The specification describes the derived name as the course name with every run of white
  space replaced by a hyphen. Read literally: cut the name into its maximal runs of code
  units of one kind (white space or not), and put one hyphen for each white-space run.
\<close>

function runs :: "jsstring \<Rightarrow> jsstring list" where
  "runs [] = []"
| "runs (c # cs) =
     (c # takeWhile (\<lambda>d. is_space d = is_space c) cs)
       # runs (dropWhile (\<lambda>d. is_space d = is_space c) cs)"
  by pat_completeness auto
termination
  by (relation "measure length") (auto simp: le_imp_less_Suc length_dropWhile_le)

fun hyphen_for :: "jsstring \<Rightarrow> jsstring" where
  "hyphen_for [] = []"
| "hyphen_for (c # cs) = (if is_space c then [hyphen] else c # cs)"

definition hyphenate_runs :: "jsstring \<Rightarrow> jsstring" where
  "hyphenate_runs s = concat (map hyphen_for (runs s))"

definition derived_name :: "jsstring \<Rightarrow> jsstring \<Rightarrow> jsstring \<Rightarrow> jsstring" where
  "derived_name course number suffix =
     hyphenate_runs course @ js ''-Lecture-'' @ number @ suffix"

subsection \<open>A sample environment and sample requests\<close>

text \<open>
  The theorems below hold for every environment. To run the handler on concrete requests
  we fix a small one: POSIX paths, where joining a directory without a trailing slash and
  a plain file name puts a slash between them and an empty name is skipped; writes that
  succeed, where an array of strings is written chunk by chunk and any other value that
  is not a string is refused; and a given content of the disk, behaviour of the child
  processes and parser.
\<close>

fun chunks :: "json list \<Rightarrow> jsstring option" where
  "chunks [] = Some []"
| "chunks (JStr s # rest) = (case chunks rest of None \<Rightarrow> None | Some t \<Rightarrow> Some (s @ t))"
| "chunks (JNull # rest) = None"
| "chunks (JBool b # rest) = None"
| "chunks (JNum x # rest) = None"
| "chunks (JArr xs # rest) = None"
| "chunks (JObj kvs # rest) = None"

fun sample_writeData :: "jsval \<Rightarrow> jsstring + jsstring" where
  "sample_writeData (Val (JArr xs)) =
     (case chunks xs of
        None \<Rightarrow> Inl (js ''The \"data\" argument must be of type string.'')
      | Some t \<Rightarrow> Inr t)"
| "sample_writeData (Val (JStr s)) = Inr s"
| "sample_writeData Undefined = Inl (js ''The \"data\" argument must be of type string.'')"
| "sample_writeData (Val JNull) = Inl (js ''The \"data\" argument must be of type string.'')"
| "sample_writeData (Val (JBool b)) = Inl (js ''The \"data\" argument must be of type string.'')"
| "sample_writeData (Val (JNum x)) = Inl (js ''The \"data\" argument must be of type string.'')"
| "sample_writeData (Val (JObj kvs)) =
     Inl (js ''The \"data\" argument must be of type string.'')"

definition sample ::
  "(jsstring \<Rightarrow> jsstring option) \<Rightarrow> (jsstring \<Rightarrow> jsstring + jsstring)
     \<Rightarrow> (jsstring \<Rightarrow> jsstring + json) \<Rightarrow> node" where
  "sample disk run parse =
     \<lparr>isAbsolute = (\<lambda>s. case s of [] \<Rightarrow> False | c # cs \<Rightarrow> c = of_char CHR ''/''),
      join = (\<lambda>a b. if b = [] then a else a @ js ''/'' @ b),
      readFile = disk,
      writeData = sample_writeData,
      writeFile = (\<lambda>path t. None),
      execSync = run,
      JSON_parse = parse,
      JSON_stringify = (\<lambda>j. case j of JObj [] \<Rightarrow> js ''{}'' | _ \<Rightarrow> js ''[json]''),
      String_json = (\<lambda>j. Inr (js ''[json]'')),
      String_inherited =
        (\<lambda>k. if k = js ''constructor'' then js ''function Object() { [native code] }''
             else js ''[inherited]''),
      pathTypeMessage = (\<lambda>a. js ''The \"path\" argument must be of type string.''),
      nullishMessage = (\<lambda>v. js ''Cannot read properties of undefined'')\<rparr>"

definition request :: "jsstring \<Rightarrow> source_type \<Rightarrow> jsstring \<Rightarrow> params" where
  "request course kind location =
     \<lparr>courseName = course, lectureNumber = js ''3'', lectureTopic = js ''Limits'',
      sourceType = kind, sourceLocation = location,
      apiMethod = None, apiHeaders = None, apiBody = None,
      outputDirectory = None, outputFilename = None,
      saveTranscript = True, transcriptFilename = None,
      specialFormatting = None, contentToEmphasize = None, otherInstructions = None\<rparr>"

definition no_disk :: "jsstring \<Rightarrow> jsstring option" where
  "no_disk path = None"

definition one_file :: "jsstring \<Rightarrow> jsstring \<Rightarrow> jsstring \<Rightarrow> jsstring option" where
  "one_file name text path = (if path = name then Some text else None)"

definition prints :: "jsstring \<Rightarrow> jsstring \<Rightarrow> jsstring + jsstring" where
  "prints out cmd = Inr out"

definition exits_nonzero :: "jsstring \<Rightarrow> jsstring + jsstring" where
  "exits_nonzero cmd = Inl (js ''Command failed: '' @ cmd)"

definition parses_to :: "json \<Rightarrow> jsstring \<Rightarrow> jsstring + json" where
  "parses_to j out = Inr j"

definition unparseable :: "jsstring \<Rightarrow> jsstring + json" where
  "unparseable out = Inl (js ''Unexpected token'')"

section \<open>Properties\<close>

subsection \<open>The structure of a run\<close>

lemma acquire_fetch:
  "acquire rt p =
     (case sourceType p of
        LocalFile \<Rightarrow> fetch rt p
      | Youtube \<Rightarrow> and_then (fetch rt p) (save_copy rt p (ytTranscriptFilename p))
      | Api \<Rightarrow> and_then (fetch rt p) (save_copy rt p (apiTranscriptFilename p)))"
  by (simp add: acquire_def fetch_def split: source_type.splits)

lemma events_handler: "fst (handler rt p) = warning p @ fst (acquire rt p)"
  by (cases "acquire rt p") (simp add: handler_def split: step.splits sum.splits)

lemma writes_append: "writes (xs @ ys) = writes xs @ writes ys"
  by (induction xs rule: writes.induct) simp_all

lemma commands_append: "commands (xs @ ys) = commands xs @ commands ys"
  by (induction xs rule: commands.induct) simp_all



lemma writes_warning: "writes (warning p) = []"
  by (simp add: warning_def)

lemma commands_warning: "commands (warning p) = []"
  by (simp add: warning_def)

lemma answer_handler:
  "snd (handler rt p) =
     (case snd (acquire rt p) of
        Return env \<Rightarrow> env
      | Throw e \<Rightarrow> caught rt e
      | Continue c \<Rightarrow> (case respond rt p c of Inl e \<Rightarrow> caught rt e | Inr env \<Rightarrow> env))"
  by (cases "acquire rt p") (simp add: handler_def split: step.splits sum.splits)

lemma isError_caught: "isError (caught rt e)"
  by (simp add: caught_def)

lemma respond_ok: "respond rt p c = Inr env \<Longrightarrow> \<not> isError env"
  by (auto simp: respond_def Let_def split: sum.splits)

lemma snd_and_then:
  "snd (and_then x f) = (case snd x of Continue c \<Rightarrow> snd (f c) | Return env \<Rightarrow> Return env | Throw e \<Rightarrow> Throw e)"
  by (cases x, cases "snd x") simp_all

lemma fst_and_then:
  "fst (and_then x f) = (case snd x of Continue c \<Rightarrow> fst x @ fst (f c) | Return env \<Rightarrow> fst x | Throw e \<Rightarrow> fst x)"
  by (cases x, cases "snd x") simp_all

lemma save_copy_value: "snd (save_copy rt p name c) = Continue c' \<Longrightarrow> c' = c"
  by (auto simp: save_copy_def split: if_splits sum.splits option.splits)

lemma save_copy_no_return: "snd (save_copy rt p name c) \<noteq> Return env"
  by (auto simp: save_copy_def split: if_splits sum.splits option.splits)

lemma fetch_remote_no_return: "sourceType p \<noteq> LocalFile \<Longrightarrow> snd (fetch rt p) \<noteq> Return env"
  by (auto simp: fetch_def fetch_youtube_def fetch_api_def split: source_type.splits sum.splits)

lemma fetch_return: "snd (fetch rt p) = Return env \<Longrightarrow> isError env"
  by (auto simp: fetch_def fetch_youtube_def fetch_api_def acquire_local_def not_readable_def
      split: source_type.splits sum.splits option.splits)

lemma acquire_return: "snd (acquire rt p) = Return env \<Longrightarrow> isError env"
  by (auto simp: acquire_fetch snd_and_then save_copy_no_return
      split: source_type.splits step.splits dest: fetch_return)

lemma acquire_continue: "snd (acquire rt p) = Continue c \<Longrightarrow> snd (fetch rt p) = Continue c"
  by (auto simp: acquire_fetch snd_and_then split: source_type.splits step.splits
      dest: save_copy_value)

lemma success_acquired:
  "\<not> isError (snd (handler rt p)) \<Longrightarrow> \<exists>c env. snd (acquire rt p) = Continue c \<and> respond rt p c = Inr env \<and> snd (handler rt p) = env"
  by (auto simp: answer_handler isError_caught split: step.splits sum.splits dest: acquire_return)

lemma writes_fetch: "writes (fst (fetch rt p)) = []"
  by (auto simp: fetch_def fetch_youtube_def fetch_api_def acquire_local_def
      split: source_type.splits sum.splits option.splits)


lemma commands_save_copy: "commands (fst (save_copy rt p name c)) = []"
  by (auto simp: save_copy_def split: sum.splits option.splits)

lemma writes_save_copy:
  "writes (fst (save_copy rt p name c)) =
     (case transcriptPath p of
        Own d \<Rightarrow> if saveTranscript p then [(join rt d name, c)] else []
      | Inherited k \<Rightarrow> []
      | Missing \<Rightarrow> [])"
  by (auto simp: save_copy_def split: sum.splits option.splits member.splits)

lemma fetched_kind:
  "snd (fetch rt p) = Continue c \<Longrightarrow> sourceType p \<noteq> Api \<Longrightarrow> \<exists>s. c = Val (JStr s)"
  by (auto simp: fetch_def fetch_youtube_def acquire_local_def
      split: source_type.splits sum.splits option.splits)

lemma writes_handler:
  "writes (fst (handler rt p)) =
     (case sourceType p of
        LocalFile \<Rightarrow> []
      | Youtube \<Rightarrow>
          (case snd (fetch rt p) of
             Continue c \<Rightarrow> writes (fst (save_copy rt p (ytTranscriptFilename p) c))
           | Return env \<Rightarrow> []
           | Throw e \<Rightarrow> [])
      | Api \<Rightarrow>
          (case snd (fetch rt p) of
             Continue c \<Rightarrow> writes (fst (save_copy rt p (apiTranscriptFilename p) c))
           | Return env \<Rightarrow> []
           | Throw e \<Rightarrow> []))"
  by (simp add: events_handler writes_append writes_warning acquire_fetch fst_and_then
      writes_fetch split: source_type.splits step.splits)

subsection \<open>The derived name: the code against the words of the specification\<close>

text \<open>
  The runs are a partition of the string into non-empty blocks of one kind, and two
  neighbours are of different kinds: the runs are maximal.
\<close>

lemma concat_runs: "concat (runs s) = s"
  by (induction s rule: runs.induct) simp_all

lemma runs_uniform: "r \<in> set (runs s) \<Longrightarrow> \<exists>c cs. r = c # cs \<and> (\<forall>d \<in> set cs. is_space d = is_space c)"
  by (induction s rule: runs.induct) (auto dest: set_takeWhileD)

lemma runs_maximal:
  "successively (\<lambda>r r'. \<exists>c cs c' cs'. r = c # cs \<and> r' = c' # cs' \<and> is_space c' \<noteq> is_space c) (runs s)"
proof (induction s rule: runs.induct)
  case 1
  show ?case by simp
next
  case (2 c cs)
  define rest where "rest = dropWhile (\<lambda>d. is_space d = is_space c) cs"
  have step: "runs (c # cs) = (c # takeWhile (\<lambda>d. is_space d = is_space c) cs) # runs rest"
    by (simp add: rest_def)
  show ?case
  proof (cases rest)
    case Nil
    then show ?thesis unfolding step Nil by simp
  next
    case (Cons e es)
    then have "is_space e \<noteq> is_space c"
      using hd_dropWhile[of "\<lambda>d. is_space d = is_space c" cs] by (auto simp: rest_def)
    moreover have "successively (\<lambda>r r'. \<exists>c cs c' cs'. r = c # cs \<and> r' = c' # cs' \<and> is_space c' \<noteq> is_space c) (runs rest)"
      using 2 by (simp add: rest_def)
    ultimately show ?thesis unfolding step Cons by simp
  qed
qed

lemma replace_ws_no_space:
  "\<forall>x \<in> set xs. \<not> is_space x \<Longrightarrow> replace_ws (xs @ ys) = xs @ replace_ws ys"
  by (induction xs) simp_all

lemma replace_ws_runs: "replace_ws s = hyphenate_runs s"
proof (induction s rule: runs.induct)
  case 1
  show ?case by (simp add: hyphenate_runs_def)
next
  case (2 c cs)
  show ?case
  proof (cases "is_space c")
    case True
    then have "(\<lambda>d. is_space d = is_space c) = is_space" by auto
    with 2 True show ?thesis by (simp add: hyphenate_runs_def)
  next
    case False
    then have eq: "(\<lambda>d. is_space d = is_space c) = (\<lambda>d. \<not> is_space d)" by auto
    have "replace_ws (c # cs) = replace_ws ((c # takeWhile (\<lambda>d. \<not> is_space d) cs) @ dropWhile (\<lambda>d. \<not> is_space d) cs)"
      by simp
    also have "\<dots> = (c # takeWhile (\<lambda>d. \<not> is_space d) cs) @ replace_ws (dropWhile (\<lambda>d. \<not> is_space d) cs)"
      using False by (intro replace_ws_no_space) (auto dest: set_takeWhileD)
    finally show ?thesis using 2 False eq by (simp add: hyphenate_runs_def)
  qed
qed

lemma lectureStem_derived: "lectureStem p @ suffix = derived_name (courseName p) (lectureNumber p) suffix"
  by (simp add: lectureStem_def derived_name_def replace_ws_runs)

subsection \<open>Subprocesses and resolved paths\<close>

lemma spawned_commands:
  "commands (fst (handler rt p)) =
     (case sourceType p of
        LocalFile \<Rightarrow> []
      | Youtube \<Rightarrow> [ytCommand p]
      | Api \<Rightarrow> [curlCommand rt p])"
  by (auto simp: events_handler commands_append commands_warning acquire_def fst_and_then
      commands_save_copy acquire_local_def fetch_youtube_def fetch_api_def
      split: source_type.splits step.splits sum.splits option.splits)

lemma noteCommand_not_spawned: "noteCommand \<notin> set (commands (fst (handler rt p)))"
  by (simp add: spawned_commands noteCommand_def ytCommand_def curlCommand_def js_def Let_def
      split: source_type.splits)

lemma math_paths:
  "courseName p = js ''Math'' \<Longrightarrow>
     transcriptPath p = Own (js ''/Users/lmarte/Documents/Obsidian Vault/Math/transcripts'')"
  "courseName p = js ''Math'' \<Longrightarrow>
     notesPath p = Own (js ''/Users/lmarte/Documents/Obsidian Vault/Math'')"
  "courseName p = js ''Math'' \<Longrightarrow> warning p = []"
  by (simp_all add: transcriptPath_def notesPath_def warning_def lookup_def or_default_def
      COURSE_TRANSCRIPT_PATHS_def COURSE_NOTES_PATHS_def js_def)

subsection \<open>Evaluation and the resolved paths\<close>

lemmas run_defs =
  handler_def acquire_def acquire_local_def local_target_def fetch_def fetch_youtube_def
  fetch_api_def save_copy_def fs_writeFile_def respond_def success_text_def caught_def not_readable_def
  ytCommand_def curlCommand_def ytTranscriptFilename_def apiTranscriptFilename_def
  outputFilename_final_def outputDirectory_final_def lectureStem_def
  transcriptPath_def notesPath_def warning_def lookup_def or_default_def
  COURSE_TRANSCRIPT_PATHS_def COURSE_NOTES_PATHS_def DEFAULT_NOTES_PATH_def
  DEFAULT_TRANSCRIPT_PATH_def Object_prototype_def is_space_def hyphen_def digit_def

lemmas sample_defs =
  sample_def request_def no_disk_def one_file_def prints_def exits_nonzero_def
  parses_to_def unparseable_def

lemma resolve_unmapped:
  assumes "map_of COURSE_NOTES_PATHS (courseName p) = None"
    and "courseName p \<notin> set Object_prototype"
  shows "notesPath p = Own DEFAULT_NOTES_PATH"
    and "transcriptPath p = Own DEFAULT_TRANSCRIPT_PATH"
    and "warning p = [Warn (js ''Warning: Unknown course \"'' @ courseName p
                            @ js ''\". Using default paths.'')]"
  using assms
  by (simp_all add: notesPath_def transcriptPath_def warning_def lookup_def or_default_def
      COURSE_NOTES_PATHS_def COURSE_TRANSCRIPT_PATHS_def split: if_splits)

lemma transcriptPath_truthy: "truthy (transcriptPath p)"
  by (simp add: transcriptPath_def lookup_def or_default_def COURSE_TRANSCRIPT_PATHS_def
      DEFAULT_TRANSCRIPT_PATH_def js_def)

lemma fallback_unreachable: "or_default (transcriptPath p) loc = transcriptPath p"
  by (simp add: or_default_def[of "transcriptPath p"] transcriptPath_truthy)

lemma transcriptPath_string:
  "courseName p \<notin> set Object_prototype \<Longrightarrow> \<exists>d. transcriptPath p = Own d \<and> d \<noteq> []"
  by (simp add: transcriptPath_def lookup_def or_default_def COURSE_TRANSCRIPT_PATHS_def
      DEFAULT_TRANSCRIPT_PATH_def js_def)

lemma success_source_line:
  assumes "\<not> isError (snd (handler rt p))"
  shows "\<exists>fullOutputPath len.
           content (snd (handler rt p)) =
             [Text (js ''Notes successfully generated from '' @ sourceType_text (sourceType p)
                    @ js '' source!\<newline>\<newline>''
                    @ js ''Course: '' @ courseName p @ js ''\<newline>''
                    @ js ''Source: '' @ show_member rt (transcriptPath p) @ js ''\<newline>''
                    @ js ''Notes saved to: '' @ fullOutputPath @ js ''\<newline>\<newline>''
                    @ js ''Transcript length: '' @ len @ js '' characters'')]"
proof -
  from success_acquired [OF assms] obtain c env
    where r: "respond rt p c = Inr env" and e: "snd (handler rt p) = env" by blast
  from r obtain fullOutputPath len
    where "env = \<lparr>isError = False,
                   content = [Text (success_text rt p fullOutputPath len)]\<rparr>"
    by (auto simp: respond_def Let_def split: sum.splits)
  then show ?thesis
    unfolding e by (auto simp: success_text_def fallback_unreachable)
qed

subsection \<open>Failures of the api source\<close>

lemma fetch_api_failed:
  assumes "sourceType p = Api"
  shows "execSync rt (curlCommand rt p) = Inl m \<Longrightarrow>
           acquire rt p = ([Exec (curlCommand rt p)], Throw (ExecError m))"
    and "execSync rt (curlCommand rt p) = Inr out \<Longrightarrow> JSON_parse rt out = Inl m \<Longrightarrow>
           acquire rt p = ([Exec (curlCommand rt p)], Throw (SyntaxError m))"
  using assms by (simp_all add: acquire_def fetch_api_def)

lemma fetch_api_no_data:
  assumes "sourceType p = Api"
    and "execSync rt (curlCommand rt p) = Inr out"
    and "JSON_parse rt out = Inr (JObj kvs)"
    and "map_of kvs (js ''data'') = None"
  shows "snd (fetch rt p) = Continue Undefined"
  using assms by (simp add: fetch_def fetch_api_def)

lemma respond_undefined: "\<exists>e. respond rt p Undefined = Inl e"
  by (simp add: respond_def Let_def split: sum.splits)

lemma undefined_fails:
  assumes "snd (fetch rt p) = Continue Undefined"
  shows "\<exists>e. snd (handler rt p) = caught rt e"
proof (cases "snd (acquire rt p)")
  case (Continue c)
  with acquire_continue [of rt p c] assms have "c = Undefined" by simp
  with Continue respond_undefined [of rt p] show ?thesis
    by (auto simp: answer_handler)
next
  case (Return env)
  with assms show ?thesis
    by (auto simp: acquire_fetch snd_and_then save_copy_no_return
        split: source_type.splits step.splits)
next
  case (Throw e)
  then show ?thesis by (auto simp: answer_handler)
qed

lemma curl_sample:
  "curlCommand (sample disk run parse) (request course Api (js ''https://example.com/t''))
   = js ''npx @modelcontextprotocol/server-curl https://example.com/t GET {} ''"
  by (simp add: curlCommand_def sample_def request_def js_def)

subsection \<open>What a success implies\<close>






subsection \<open>Derived names of sample courses\<close>

lemma derived_math: "derived_name (js ''Math'') (js ''3'') suffix = js ''Math-Lecture-3'' @ suffix"
  by (simp add: derived_name_def replace_ws_runs [symmetric] is_space_def js_def)

lemma fetch_youtube_value:
  "sourceType p = Youtube \<Longrightarrow> execSync rt (ytCommand p) = Inr out \<Longrightarrow>
     snd (fetch rt p) = Continue (Val (JStr out))"
  by (simp add: fetch_def fetch_youtube_def)

lemma derived_linear:
  "derived_name (js ''Linear  Algebra\<newline> II'') (js ''3'') (js ''-API.txt'')
   = js ''Linear-Algebra-II-Lecture-3-API.txt''"
  by (simp add: derived_name_def replace_ws_runs [symmetric] is_space_def hyphen_def js_def)

subsection \<open>Claims\<close>

text \<open>
  Claim C1 says that a request that passes acquisition has the note renderer invoked as a
  subprocess before the success envelope is returned. The handler builds the command and
  its arguments and returns without calling it (see \<open>spawned_commands\<close> and
  \<open>noteCommand_not_spawned\<close>). Here is a run that answers "Notes successfully
  generated" after a single file read, in an environment where every subprocess would fail.
\<close>

theorem C1_note_renderer_not_invoked:
  "handler
     (sample (one_file (js ''/Users/lmarte/Documents/Obsidian Vault/Math/transcripts/lec1.txt'')
                (js ''hello''))
        exits_nonzero unparseable)
     (request (js ''Math'') LocalFile (js ''lec1.txt''))
   = ([ReadFile (js ''/Users/lmarte/Documents/Obsidian Vault/Math/transcripts/lec1.txt'')],
      \<lparr>isError = False,
       content = [Text (js ''Notes successfully generated from local-file source!\<newline>\<newline>Course: Math\<newline>Source: /Users/lmarte/Documents/Obsidian Vault/Math/transcripts\<newline>Notes saved to: /Users/lmarte/Documents/Obsidian Vault/Math/Math-Lecture-3.md\<newline>\<newline>Transcript length: 5 characters'')]\<rparr>)"
  by (simp add: run_defs sample_defs js_def)

text \<open>
  Claim C2 says that the transcript is a non-empty string whenever a copy is written or the
  request succeeds. The handler has no such check: when the video helper prints nothing,
  the empty transcript is written and the request succeeds.
\<close>

theorem C2_empty_transcript_counterexample:
  "handler (sample no_disk (prints []) unparseable)
     (request (js ''Math'') Youtube (js ''https://youtu.be/x''))
   = ([Exec (js ''npx -y @anaisbetts/mcp-youtube https://youtu.be/x''),
       WriteFile (js ''/Users/lmarte/Documents/Obsidian Vault/Math/transcripts/Math-Lecture-3-YT.txt'')
         (Val (JStr []))],
      \<lparr>isError = False,
       content = [Text (js ''Notes successfully generated from youtube source!\<newline>\<newline>Course: Math\<newline>Source: /Users/lmarte/Documents/Obsidian Vault/Math/transcripts\<newline>Notes saved to: /Users/lmarte/Documents/Obsidian Vault/Math/Math-Lecture-3.md\<newline>\<newline>Transcript length: 0 characters'')]\<rparr>)"
  by (simp add: run_defs sample_defs js_def)

text \<open>
  Claim C2, amended. If a transcript copy is written or the request succeeds, then
  acquisition has produced a value: the one every write carries, and a string (possibly
  empty) for the local-file and youtube sources. Read the other way: a request whose
  acquisition fails is answered with an error and writes nothing.
\<close>

theorem C2_acquired_before_write_or_success:
  assumes "writes (fst (handler rt p)) \<noteq> [] \<or> \<not> isError (snd (handler rt p))"
  shows "\<exists>c. snd (fetch rt p) = Continue c
             \<and> (\<forall>w \<in> set (writes (fst (handler rt p))). snd w = c)
             \<and> (sourceType p \<noteq> Api \<longrightarrow> (\<exists>s. c = Val (JStr s)))"
proof -
  have "\<exists>c. snd (fetch rt p) = Continue c"
    using assms
  proof
    assume "writes (fst (handler rt p)) \<noteq> []"
    then show ?thesis
      by (auto simp: writes_handler split: source_type.splits step.splits)
  next
    assume "\<not> isError (snd (handler rt p))"
    then show ?thesis
      using success_acquired acquire_continue by blast
  qed
  then obtain c where c: "snd (fetch rt p) = Continue c" ..
  have "\<forall>w \<in> set (writes (fst (handler rt p))). snd w = c"
    using c by (auto simp: writes_handler writes_save_copy
        split: source_type.splits member.splits if_splits)
  with c fetched_kind [OF c] show ?thesis by blast
qed

text \<open>The amended claim C2 at a youtube request whose helper prints "hello".\<close>

theorem C2_acquired_before_write_or_success_witness:
  "\<not> isError (snd (handler (sample no_disk (prints (js ''hello'')) unparseable)
                       (request (js ''Math'') Youtube (js ''https://youtu.be/x''))))
   \<and> (\<exists>s. snd (fetch (sample no_disk (prints (js ''hello'')) unparseable)
                  (request (js ''Math'') Youtube (js ''https://youtu.be/x'')))
            = Continue (Val (JStr s)))"
proof -
  let ?rt = "sample no_disk (prints (js ''hello'')) unparseable"
  let ?p = "request (js ''Math'') Youtube (js ''https://youtu.be/x'')"
  have h: "\<not> isError (snd (handler ?rt ?p))"
    by (simp add: run_defs sample_defs js_def)
  then have "writes (fst (handler ?rt ?p)) \<noteq> [] \<or> \<not> isError (snd (handler ?rt ?p))" ..
  from C2_acquired_before_write_or_success [OF this] obtain c
    where "snd (fetch ?rt ?p) = Continue c"
      and "sourceType ?p \<noteq> Api \<longrightarrow> (\<exists>s. c = Val (JStr s))" by blast
  moreover have "sourceType ?p \<noteq> Api" by (simp add: request_def)
  ultimately have "\<exists>s. snd (fetch ?rt ?p) = Continue (Val (JStr s))" by blast
  with h show ?thesis by blast
qed

text \<open>
  A local-file request whose target file is named and cannot be read is answered with
  the message that the file could not be read; the run writes no file and spawns no
  subprocess. The target is named when the source location is absolute or the course name
  is not an inherited property name.
\<close>

lemma missing_local_file:
  assumes "sourceType p = LocalFile"
    and "local_target rt p = Inr path"
    and "readFile rt path = None"
  shows "snd (handler rt p) =
           \<lparr>isError = True,
            content = [Text (js ''Error: Could not read file at '' @ path
                             @ js ''. Make sure the file exists and is accessible.'')]\<rparr>
         \<and> writes (fst (handler rt p)) = []
         \<and> commands (fst (handler rt p)) = []"
  using assms
  by (simp add: answer_handler writes_handler spawned_commands acquire_def acquire_local_def
      not_readable_def)

lemma missing_local_file_math:
  "sourceType (request (js ''Math'') LocalFile (js ''lec1.txt'')) = LocalFile
   \<and> local_target (sample no_disk exits_nonzero unparseable)
        (request (js ''Math'') LocalFile (js ''lec1.txt''))
       = Inr (js ''/Users/lmarte/Documents/Obsidian Vault/Math/transcripts/lec1.txt'')
   \<and> readFile (sample no_disk exits_nonzero unparseable)
        (js ''/Users/lmarte/Documents/Obsidian Vault/Math/transcripts/lec1.txt'') = None
   \<and> snd (handler (sample no_disk exits_nonzero unparseable)
             (request (js ''Math'') LocalFile (js ''lec1.txt''))) =
        \<lparr>isError = True,
         content = [Text (js ''Error: Could not read file at /Users/lmarte/Documents/Obsidian Vault/Math/transcripts/lec1.txt. Make sure the file exists and is accessible.'')]\<rparr>
   \<and> writes (fst (handler (sample no_disk exits_nonzero unparseable)
                  (request (js ''Math'') LocalFile (js ''lec1.txt'')))) = []
   \<and> commands (fst (handler (sample no_disk exits_nonzero unparseable)
                  (request (js ''Math'') LocalFile (js ''lec1.txt'')))) = []"
proof -
  have k: "sourceType (request (js ''Math'') LocalFile (js ''lec1.txt'')) = LocalFile"
    by (simp add: request_def)
  have t: "local_target (sample no_disk exits_nonzero unparseable)
        (request (js ''Math'') LocalFile (js ''lec1.txt''))
       = Inr (js ''/Users/lmarte/Documents/Obsidian Vault/Math/transcripts/lec1.txt'')"
    by (simp add: local_target_def math_paths request_def sample_def js_def)
  have r: "readFile (sample no_disk exits_nonzero unparseable)
        (js ''/Users/lmarte/Documents/Obsidian Vault/Math/transcripts/lec1.txt'') = None"
    by (simp add: sample_def no_disk_def)
  show ?thesis
    using missing_local_file [OF k t r] k t r by (simp add: js_def)
qed

lemma inherited_paths:
  assumes "courseName p \<in> set Object_prototype"
  shows "notesPath p = Inherited (courseName p)"
    and "transcriptPath p = Inherited (courseName p)"
    and "warning p = []"
  using assms
  by (auto simp: notesPath_def transcriptPath_def warning_def lookup_def or_default_def
      COURSE_NOTES_PATHS_def COURSE_TRANSCRIPT_PATHS_def Object_prototype_def js_def)

lemma local_target_formed:
  "(\<exists>path. local_target rt p = Inr path) =
     (isAbsolute rt (sourceLocation p) \<or> courseName p \<notin> set Object_prototype)"
proof (cases "courseName p \<in> set Object_prototype")
  case True
  then show ?thesis by (simp add: local_target_def inherited_paths)
next
  case False
  with transcriptPath_string [of p] show ?thesis by (auto simp: local_target_def)
qed

lemma inherited_name_relative_file:
  assumes "sourceType p = LocalFile"
    and "\<not> isAbsolute rt (sourceLocation p)"
    and "courseName p \<in> set Object_prototype"
  shows "handler rt p = ([], caught rt (PathTypeError (Inherited (courseName p))))"
  using assms
  by (simp add: handler_def acquire_def acquire_local_def local_target_def inherited_paths)

text \<open>
  Claim C3 says that every local-file request whose target file is missing is answered
  with the message that the file could not be read. For a relative source location the
  handler joins the resolved transcript directory and the location before the inner
  \<open>try\<close>. Under a course name that is an inherited property name (see claim C8) the
  directory is not a string, the join throws, and the answer is the one of the outer
  catch, in every environment (\<open>inherited_name_relative_file\<close>). Here on an empty disk,
  for the course name \<open>toString\<close>.
\<close>

theorem C3_missing_file_under_inherited_name:
  "sourceType (request (js ''toString'') LocalFile (js ''lec1.txt'')) = LocalFile
   \<and> \<not> isAbsolute (sample no_disk exits_nonzero unparseable) (js ''lec1.txt'')
   \<and> handler (sample no_disk exits_nonzero unparseable)
        (request (js ''toString'') LocalFile (js ''lec1.txt''))
     = ([], \<lparr>isError = True,
             content = [Text (js ''Error generating notes: The \"path\" argument must be of type string.'')]\<rparr>)"
  by (simp add: run_defs sample_defs js_def)

text \<open>
  Claim C4. For an api request, if the fetching subprocess fails, or its output does not
  parse, or the parsed object has no \<open>data\<close> field, the answer is the error envelope of
  the outer catch (\<open>isError = true\<close>, "Error generating notes: ..."), never a success.
  In the first two cases the message is the one of the failure and nothing else has
  happened; in the third the undefined transcript makes a later step throw.
\<close>

theorem C4_api_failures_are_errors:
  assumes "sourceType p = Api"
  shows "(execSync rt (curlCommand rt p) = Inl m \<longrightarrow>
            handler rt p = (warning p @ [Exec (curlCommand rt p)],
              \<lparr>isError = True, content = [Text (js ''Error generating notes: '' @ m)]\<rparr>))
       \<and> (execSync rt (curlCommand rt p) = Inr out \<and> JSON_parse rt out = Inl m' \<longrightarrow>
            handler rt p = (warning p @ [Exec (curlCommand rt p)],
              \<lparr>isError = True, content = [Text (js ''Error generating notes: '' @ m')]\<rparr>))
       \<and> (execSync rt (curlCommand rt p) = Inr out \<and> JSON_parse rt out = Inr (JObj kvs)
            \<and> map_of kvs (js ''data'') = None \<longrightarrow>
            (\<exists>e. snd (handler rt p) =
               \<lparr>isError = True,
                content = [Text (js ''Error generating notes: '' @ message rt e)]\<rparr>))"
proof (intro conjI impI)
  assume "execSync rt (curlCommand rt p) = Inl m"
  from fetch_api_failed(1) [OF assms this] show "handler rt p = (warning p @ [Exec (curlCommand rt p)],
              \<lparr>isError = True, content = [Text (js ''Error generating notes: '' @ m)]\<rparr>)"
    by (simp add: handler_def caught_def)
next
  assume "execSync rt (curlCommand rt p) = Inr out \<and> JSON_parse rt out = Inl m'"
  then have "acquire rt p = ([Exec (curlCommand rt p)], Throw (SyntaxError m'))"
    using fetch_api_failed(2) [OF assms] by blast
  then show "handler rt p = (warning p @ [Exec (curlCommand rt p)],
              \<lparr>isError = True, content = [Text (js ''Error generating notes: '' @ m')]\<rparr>)"
    by (simp add: handler_def caught_def)
next
  assume "execSync rt (curlCommand rt p) = Inr out \<and> JSON_parse rt out = Inr (JObj kvs)
            \<and> map_of kvs (js ''data'') = None"
  then have "snd (fetch rt p) = Continue Undefined"
    using fetch_api_no_data [OF assms] by blast
  from undefined_fails [OF this] show "\<exists>e. snd (handler rt p) =
               \<lparr>isError = True,
                content = [Text (js ''Error generating notes: '' @ message rt e)]\<rparr>"
    by (simp add: caught_def)
qed

text \<open>Claim C4 at three runs: a failing command, output that is no JSON, and \<open>{}\<close>.\<close>

theorem C4_api_failures_are_errors_witness:
  "sourceType (request (js ''Math'') Api (js ''https://example.com/t'')) = Api
   \<and> handler (sample no_disk exits_nonzero unparseable)
        (request (js ''Math'') Api (js ''https://example.com/t''))
     = ([Exec (js ''npx @modelcontextprotocol/server-curl https://example.com/t GET {} '')],
        \<lparr>isError = True,
         content = [Text (js ''Error generating notes: Command failed: npx @modelcontextprotocol/server-curl https://example.com/t GET {} '')]\<rparr>)
   \<and> handler (sample no_disk (prints (js ''<html>'')) unparseable)
        (request (js ''Math'') Api (js ''https://example.com/t''))
     = ([Exec (js ''npx @modelcontextprotocol/server-curl https://example.com/t GET {} '')],
        \<lparr>isError = True, content = [Text (js ''Error generating notes: Unexpected token'')]\<rparr>)
   \<and> (\<exists>e. snd (handler (sample no_disk (prints (js ''{}'')) (parses_to (JObj [])))
                 (request (js ''Math'') Api (js ''https://example.com/t'')))
          = \<lparr>isError = True,
             content = [Text (js ''Error generating notes: ''
                              @ message (sample no_disk (prints (js ''{}'')) (parses_to (JObj []))) e)]\<rparr>)"
proof -
  let ?p = "request (js ''Math'') Api (js ''https://example.com/t'')"
  have k: "sourceType ?p = Api" by (simp add: request_def)
  have w: "warning ?p = []" by (simp add: math_paths request_def)
  have a: "execSync (sample no_disk exits_nonzero unparseable)
             (curlCommand (sample no_disk exits_nonzero unparseable) ?p)
           = Inl (js ''Command failed: npx @modelcontextprotocol/server-curl https://example.com/t GET {} '')"
    by (simp add: curl_sample) (simp add: sample_def exits_nonzero_def js_def)
  have b: "execSync (sample no_disk (prints (js ''<html>'')) unparseable)
             (curlCommand (sample no_disk (prints (js ''<html>'')) unparseable) ?p)
           = Inr (js ''<html>'')
         \<and> JSON_parse (sample no_disk (prints (js ''<html>'')) unparseable) (js ''<html>'')
           = Inl (js ''Unexpected token'')"
    by (simp add: sample_def prints_def unparseable_def)
  have c: "execSync (sample no_disk (prints (js ''{}'')) (parses_to (JObj [])))
             (curlCommand (sample no_disk (prints (js ''{}'')) (parses_to (JObj []))) ?p)
           = Inr (js ''{}'')
         \<and> JSON_parse (sample no_disk (prints (js ''{}'')) (parses_to (JObj []))) (js ''{}'')
           = Inr (JObj [])
         \<and> map_of ([] :: (jsstring \<times> json) list) (js ''data'') = None"
    by (simp add: sample_def prints_def parses_to_def)
  from C4_api_failures_are_errors [OF k, of "sample no_disk exits_nonzero unparseable" _ "[]" "[]" "[]"] a
  have 1: "handler (sample no_disk exits_nonzero unparseable) ?p
     = ([Exec (js ''npx @modelcontextprotocol/server-curl https://example.com/t GET {} '')],
        \<lparr>isError = True,
         content = [Text (js ''Error generating notes: Command failed: npx @modelcontextprotocol/server-curl https://example.com/t GET {} '')]\<rparr>)"
    by (simp add: w curl_sample) (simp add: js_def)
  from C4_api_failures_are_errors [OF k, of "sample no_disk (prints (js ''<html>'')) unparseable" "[]" "js ''<html>''" "js ''Unexpected token''" "[]"] b
  have 2: "handler (sample no_disk (prints (js ''<html>'')) unparseable) ?p
     = ([Exec (js ''npx @modelcontextprotocol/server-curl https://example.com/t GET {} '')],
        \<lparr>isError = True, content = [Text (js ''Error generating notes: Unexpected token'')]\<rparr>)"
    by (simp add: w curl_sample) (simp add: js_def)
  from C4_api_failures_are_errors [OF k, of "sample no_disk (prints (js ''{}'')) (parses_to (JObj []))" "[]" "js ''{}''" "[]" "[]"] c
  have 3: "\<exists>e. snd (handler (sample no_disk (prints (js ''{}'')) (parses_to (JObj []))) ?p)
          = \<lparr>isError = True,
             content = [Text (js ''Error generating notes: ''
                              @ message (sample no_disk (prints (js ''{}'')) (parses_to (JObj []))) e)]\<rparr>"
    by blast
  from k 1 2 3 show ?thesis by blast
qed




text \<open>
  Claim C6 says that a copy is written exactly when \<open>saveTranscript\<close> is set and the
  source is youtube or api. The write comes after the fetch, so a request with the flag
  set whose subprocess fails writes nothing.
\<close>

theorem C6_failed_fetch_counterexample:
  "saveTranscript (request (js ''Math'') Youtube (js ''https://youtu.be/x''))
   \<and> sourceType (request (js ''Math'') Youtube (js ''https://youtu.be/x'')) = Youtube
   \<and> handler (sample no_disk exits_nonzero unparseable)
        (request (js ''Math'') Youtube (js ''https://youtu.be/x''))
     = ([Exec (js ''npx -y @anaisbetts/mcp-youtube https://youtu.be/x'')],
        \<lparr>isError = True,
         content = [Text (js ''Error generating notes: Command failed: npx -y @anaisbetts/mcp-youtube https://youtu.be/x'')]\<rparr>)"
  by (simp add: run_defs sample_defs js_def)

text \<open>
  Claim C6, amended. A copy is written exactly when \<open>saveTranscript\<close> is set, the source
  is youtube or api, the fetch has produced a value, and the resolved transcript directory
  is a string, so that the path of the copy can be formed. In particular a local-file
  request never writes, whatever the flag.
\<close>

theorem C6_when_a_copy_is_written:
  "(writes (fst (handler rt p)) \<noteq> []) =
     (saveTranscript p
      \<and> (sourceType p = Youtube \<or> sourceType p = Api)
      \<and> (\<exists>c. snd (fetch rt p) = Continue c)
      \<and> (\<exists>dir. transcriptPath p = Own dir))
   \<and> (sourceType p = LocalFile \<longrightarrow> writes (fst (handler rt p)) = [])"
  by (cases "sourceType p"; cases "snd (fetch rt p)"; cases "transcriptPath p")
     (simp_all add: writes_handler writes_save_copy)

text \<open>The amended claim C6 at a youtube request and at a local-file request.\<close>

theorem C6_when_a_copy_is_written_witness:
  "writes (fst (handler (sample no_disk (prints (js ''hello'')) unparseable)
                  (request (js ''Math'') Youtube (js ''https://youtu.be/x'')))) \<noteq> []
   \<and> sourceType (request (js ''Math'') LocalFile (js ''lec1.txt'')) = LocalFile
   \<and> writes (fst (handler (sample no_disk (prints (js ''hello'')) unparseable)
                  (request (js ''Math'') LocalFile (js ''lec1.txt'')))) = []"
proof -
  let ?rt = "sample no_disk (prints (js ''hello'')) unparseable"
  let ?p = "request (js ''Math'') Youtube (js ''https://youtu.be/x'')"
  let ?q = "request (js ''Math'') LocalFile (js ''lec1.txt'')"
  have "saveTranscript ?p" "sourceType ?p = Youtube"
    by (simp_all add: request_def)
  moreover have "snd (fetch ?rt ?p) = Continue (Val (JStr (js ''hello'')))"
    by (simp add: fetch_def fetch_youtube_def request_def sample_def prints_def)
  moreover have "transcriptPath ?p = Own (js ''/Users/lmarte/Documents/Obsidian Vault/Math/transcripts'')"
    by (simp add: math_paths request_def)
  ultimately have 1: "writes (fst (handler ?rt ?p)) \<noteq> []"
    using C6_when_a_copy_is_written [of ?rt ?p] by simp
  have k: "sourceType ?q = LocalFile" by (simp add: request_def)
  with C6_when_a_copy_is_written [of ?rt ?q] have 2: "writes (fst (handler ?rt ?q)) = []"
    by blast
  from 1 k 2 show ?thesis by blast
qed

text \<open>
  Claim C7. For a youtube request with \<open>saveTranscript\<close> and no \<open>transcriptFilename\<close>,
  the name of the copy is the course name with every run of white space replaced by one
  hyphen, then \<open>-Lecture-\<close>, the lecture number and \<open>-YT.txt\<close>; the copy of what the
  helper printed is written under that name in the resolved transcript directory; and for
  the course Math and the lecture number 3 the name is \<open>Math-Lecture-3-YT.txt\<close>.
\<close>

theorem C7_derived_youtube_name:
  assumes "sourceType p = Youtube"
    and "saveTranscript p"
    and "transcriptFilename p = None"
  shows "ytTranscriptFilename p = derived_name (courseName p) (lectureNumber p) (js ''-YT.txt'')
       \<and> (execSync rt (ytCommand p) = Inr out \<and> transcriptPath p = Own dir \<longrightarrow>
            writes (fst (handler rt p)) =
              [(join rt dir (derived_name (courseName p) (lectureNumber p) (js ''-YT.txt'')),
                Val (JStr out))])
       \<and> (courseName p = js ''Math'' \<and> lectureNumber p = js ''3'' \<longrightarrow>
            ytTranscriptFilename p = js ''Math-Lecture-3-YT.txt'')"
proof -
  have n: "ytTranscriptFilename p = derived_name (courseName p) (lectureNumber p) (js ''-YT.txt'')"
    using assms(3) by (simp add: ytTranscriptFilename_def lectureStem_derived)
  have "writes (fst (handler rt p)) =
          [(join rt dir (derived_name (courseName p) (lectureNumber p) (js ''-YT.txt'')),
            Val (JStr out))]"
    if "execSync rt (ytCommand p) = Inr out" and "transcriptPath p = Own dir"
    using that assms(1,2) fetch_youtube_value [of p rt out]
    by (simp add: writes_handler writes_save_copy n)
  moreover have "ytTranscriptFilename p = js ''Math-Lecture-3-YT.txt''"
    if "courseName p = js ''Math''" and "lectureNumber p = js ''3''"
    using that by (simp add: n derived_math) (simp add: js_def)
  ultimately show ?thesis using n by blast
qed

text \<open>Claim C7 at the request of the specification: Math, lecture 3, youtube.\<close>

theorem C7_derived_youtube_name_witness:
  "sourceType (request (js ''Math'') Youtube (js ''https://youtu.be/x'')) = Youtube
   \<and> saveTranscript (request (js ''Math'') Youtube (js ''https://youtu.be/x''))
   \<and> transcriptFilename (request (js ''Math'') Youtube (js ''https://youtu.be/x'')) = None
   \<and> ytTranscriptFilename (request (js ''Math'') Youtube (js ''https://youtu.be/x''))
     = js ''Math-Lecture-3-YT.txt''
   \<and> writes (fst (handler (sample no_disk (prints (js ''hello'')) unparseable)
                  (request (js ''Math'') Youtube (js ''https://youtu.be/x''))))
     = [(js ''/Users/lmarte/Documents/Obsidian Vault/Math/transcripts/Math-Lecture-3-YT.txt'',
         Val (JStr (js ''hello'')))]"
proof -
  let ?rt = "sample no_disk (prints (js ''hello'')) unparseable"
  let ?p = "request (js ''Math'') Youtube (js ''https://youtu.be/x'')"
  have k: "sourceType ?p = Youtube" and s: "saveTranscript ?p" and f: "transcriptFilename ?p = None"
    by (simp_all add: request_def)
  have c: "courseName ?p = js ''Math'' \<and> lectureNumber ?p = js ''3''"
    by (simp add: request_def)
  have e: "execSync ?rt (ytCommand ?p) = Inr (js ''hello'')
           \<and> transcriptPath ?p = Own (js ''/Users/lmarte/Documents/Obsidian Vault/Math/transcripts'')"
    by (simp add: math_paths request_def) (simp add: sample_def prints_def)
  from C7_derived_youtube_name [OF k s f, of ?rt "js ''hello''"
      "js ''/Users/lmarte/Documents/Obsidian Vault/Math/transcripts''"] c e
  have "ytTranscriptFilename ?p = js ''Math-Lecture-3-YT.txt''"
    and "writes (fst (handler ?rt ?p)) =
          [(join ?rt (js ''/Users/lmarte/Documents/Obsidian Vault/Math/transcripts'')
              (derived_name (courseName ?p) (lectureNumber ?p) (js ''-YT.txt'')),
            Val (JStr (js ''hello'')))]"
    by blast+
  moreover have "join ?rt (js ''/Users/lmarte/Documents/Obsidian Vault/Math/transcripts'')
              (derived_name (courseName ?p) (lectureNumber ?p) (js ''-YT.txt''))
     = js ''/Users/lmarte/Documents/Obsidian Vault/Math/transcripts/Math-Lecture-3-YT.txt''"
    using c by (simp add: derived_math) (simp add: sample_def js_def)
  ultimately show ?thesis using k s f by simp
qed

text \<open>
  Claim C10. For an api request with \<open>saveTranscript\<close> and no \<open>transcriptFilename\<close>, the
  name of the copy is the course name with every run of white space replaced by one
  hyphen, then \<open>-Lecture-\<close>, the lecture number and \<open>-API.txt\<close>, and the fetched value is
  written under that name in the resolved transcript directory.
\<close>

theorem C10_derived_api_name:
  assumes "sourceType p = Api"
    and "saveTranscript p"
    and "transcriptFilename p = None"
  shows "apiTranscriptFilename p = derived_name (courseName p) (lectureNumber p) (js ''-API.txt'')
       \<and> (snd (fetch rt p) = Continue c \<and> transcriptPath p = Own dir \<longrightarrow>
            writes (fst (handler rt p)) =
              [(join rt dir (derived_name (courseName p) (lectureNumber p) (js ''-API.txt'')), c)])"
proof -
  have n: "apiTranscriptFilename p = derived_name (courseName p) (lectureNumber p) (js ''-API.txt'')"
    using assms(3) by (simp add: apiTranscriptFilename_def lectureStem_derived)
  have "writes (fst (handler rt p)) =
          [(join rt dir (derived_name (courseName p) (lectureNumber p) (js ''-API.txt'')), c)]"
    if "snd (fetch rt p) = Continue c" and "transcriptPath p = Own dir"
    using that assms(1,2) by (simp add: writes_handler writes_save_copy n)
  with n show ?thesis by blast
qed

text \<open>
  Claim C10 at a course name with a double space and a line feed followed by a space.
\<close>

theorem C10_derived_api_name_witness:
  "sourceType (request (js ''Linear  Algebra\<newline> II'') Api (js ''https://example.com/t'')) = Api
   \<and> saveTranscript (request (js ''Linear  Algebra\<newline> II'') Api (js ''https://example.com/t''))
   \<and> transcriptFilename (request (js ''Linear  Algebra\<newline> II'') Api (js ''https://example.com/t''))
     = None
   \<and> apiTranscriptFilename (request (js ''Linear  Algebra\<newline> II'') Api (js ''https://example.com/t''))
     = js ''Linear-Algebra-II-Lecture-3-API.txt''
   \<and> writes (fst (handler (sample no_disk (prints (js ''{...}''))
                             (parses_to (JObj [(js ''data'', JStr (js ''hello''))])))
                  (request (js ''Linear  Algebra\<newline> II'') Api (js ''https://example.com/t''))))
     = [(js ''/Users/lmarte/Documents/Transcripts/Linear-Algebra-II-Lecture-3-API.txt'',
         Val (JStr (js ''hello'')))]"
proof -
  let ?rt = "sample no_disk (prints (js ''{...}''))
               (parses_to (JObj [(js ''data'', JStr (js ''hello''))]))"
  let ?p = "request (js ''Linear  Algebra\<newline> II'') Api (js ''https://example.com/t'')"
  have k: "sourceType ?p = Api" and s: "saveTranscript ?p" and f: "transcriptFilename ?p = None"
    by (simp_all add: request_def)
  have c: "courseName ?p = js ''Linear  Algebra\<newline> II'' \<and> lectureNumber ?p = js ''3''"
    by (simp add: request_def)
  have e: "snd (fetch ?rt ?p) = Continue (Val (JStr (js ''hello'')))"
    by (simp add: fetch_def fetch_api_def request_def sample_def prints_def parses_to_def)
  have t: "transcriptPath ?p = Own (js ''/Users/lmarte/Documents/Transcripts'')"
    by (simp add: run_defs request_def js_def)
  from C10_derived_api_name [OF k s f, of ?rt "Val (JStr (js ''hello''))"
      "js ''/Users/lmarte/Documents/Transcripts''"] e t
  have "apiTranscriptFilename ?p = derived_name (courseName ?p) (lectureNumber ?p) (js ''-API.txt'')"
    and "writes (fst (handler ?rt ?p)) =
          [(join ?rt (js ''/Users/lmarte/Documents/Transcripts'')
              (derived_name (courseName ?p) (lectureNumber ?p) (js ''-API.txt'')),
            Val (JStr (js ''hello'')))]"
    by blast+
  moreover have "join ?rt (js ''/Users/lmarte/Documents/Transcripts'')
                   (js ''Linear-Algebra-II-Lecture-3-API.txt'')
     = js ''/Users/lmarte/Documents/Transcripts/Linear-Algebra-II-Lecture-3-API.txt''"
    by (simp add: sample_def js_def)
  ultimately show ?thesis using k s f c by (simp add: derived_linear)
qed

text \<open>
  Claim C8 says that every course name without an entry in the tables resolves to the two
  default directories, with a warning. The tables are object literals, and the handler
  reads them with \<open>table[name]\<close>, which also finds the properties every object inherits.
  The name \<open>constructor\<close> has no entry, yet it resolves to the inherited function and not
  to the defaults, no warning is printed, and a local-file request for it ends in the
  outer catch when the path is joined. (For a name that is neither an entry nor inherited,
  \<open>resolve_unmapped\<close> gives the defaults and the warning.)
\<close>

theorem C8_inherited_name_is_not_defaulted:
  "notesPath (request (js ''constructor'') LocalFile (js ''lec1.txt''))
     = Inherited (js ''constructor'')
   \<and> transcriptPath (request (js ''constructor'') LocalFile (js ''lec1.txt''))
     = Inherited (js ''constructor'')
   \<and> map_of COURSE_NOTES_PATHS (js ''constructor'') = None
   \<and> map_of COURSE_TRANSCRIPT_PATHS (js ''constructor'') = None
   \<and> handler (sample no_disk exits_nonzero unparseable)
        (request (js ''constructor'') LocalFile (js ''lec1.txt''))
     = ([], \<lparr>isError = True,
             content = [Text (js ''Error generating notes: The \"path\" argument must be of type string.'')]\<rparr>)"
  by (simp add: run_defs sample_defs js_def)

text \<open>
  Claim C9 says that the \<open>Source:\<close> line of a success shows the resolved transcript
  directory, a non-empty string, so that the fallback to the source location is dead code.
  The fallback is indeed never taken (\<open>fallback_unreachable\<close>, \<open>success_source_line\<close>),
  and the resolved value is a non-empty string unless the course name is an inherited
  property name (\<open>transcriptPath_string\<close>). For such a name it is not a directory: this
  request succeeds and its \<open>Source:\<close> line shows the text of a function.
\<close>

theorem C9_source_line_of_inherited_name:
  "transcriptPath
     ((request (js ''constructor'') Youtube (js ''https://youtu.be/x''))
        \<lparr>saveTranscript := False, outputDirectory := Some (js ''/tmp/notes'')\<rparr>)
     = Inherited (js ''constructor'')
   \<and> handler (sample no_disk (prints (js ''hello'')) unparseable)
        ((request (js ''constructor'') Youtube (js ''https://youtu.be/x''))
           \<lparr>saveTranscript := False, outputDirectory := Some (js ''/tmp/notes'')\<rparr>)
     = ([Exec (js ''npx -y @anaisbetts/mcp-youtube https://youtu.be/x'')],
        \<lparr>isError = False,
         content = [Text (js ''Notes successfully generated from youtube source!\<newline>\<newline>Course: constructor\<newline>Source: function Object() { [native code] }\<newline>Notes saved to: /tmp/notes/constructor-Lecture-3.md\<newline>\<newline>Transcript length: 5 characters'')]\<rparr>)"
  by (simp add: run_defs sample_defs js_def)

end
